theory Spec2Isabelle
  imports Main "HOL-Library.AList" "HOL-Library.Sublist"
begin

section \<open>Data model\<close>

text \<open>
  A CNI configuration is a Go \<^verbatim>\<open>interface{}\<close> value as a decoder produces it: a string, a
  \<^verbatim>\<open>map[string]interface{}\<close>, a \<^verbatim>\<open>[]interface{}\<close>, or some other leaf. A Go map is an
  association list here: the keys of a Go map are unique (\<open>uniqueKeys\<close> below says so), and
  the order of the list stands for the order in which one \<^verbatim>\<open>range\<close> loop visits the
  entries, which Go leaves unspecified. The value is a tree: no map object occurs at two
  places.
\<close>

datatype node =
    NString string
  | NMap "(string \<times> node) list"
  | NList "node list"
  | NNumber int
  | NBool bool
  | NNil

fun uniqueKeys :: "node \<Rightarrow> bool" where
  "uniqueKeys (NMap props) =
     (distinct (map fst props) \<and> (\<forall>(k, v) \<in> set props. uniqueKeys v))"
| "uniqueKeys (NList xs) = (\<forall>x \<in> set xs. uniqueKeys x)"
| "uniqueKeys _ = True"

text \<open>
  The types of \<^verbatim>\<open>go-rancher-metadata\<close>, with the fields this package reads. \<^verbatim>\<open>Labels\<close> is a
  \<^verbatim>\<open>map[string]string\<close>, only ever looked up; \<^verbatim>\<open>Metadata\<close> is a
  \<^verbatim>\<open>map[string]interface{}\<close>, looked up with \<open>map_of\<close>.
\<close>

record Host =
  UUID :: string
  EnvironmentUUID :: string
  Labels :: "string \<rightharpoonup> string"

record Network =
  UUID :: string
  EnvironmentUUID :: string
  Metadata :: "(string \<times> node) list"

record Container =
  UUID :: string
  HostUUID :: string
  NetworkUUID :: string
  State :: string

record Service =
  UUID :: string
  StackUUID :: string
  Kind :: string
  Name :: string
  PrimaryServiceName :: string
  Containers :: "Container list"

text \<open>The zero value of \<^verbatim>\<open>metadata.Service\<close>, what \<^verbatim>\<open>var networkService metadata.Service\<close> holds.\<close>

definition zeroService :: Service where
  "zeroService = \<lparr>Service.UUID = '''', StackUUID = '''', Kind = '''', Name = '''',
     PrimaryServiceName = '''', Containers = []\<rparr>"

section \<open>The string functions of Go's library that the package calls\<close>

text \<open>
  \<^verbatim>\<open>strings.SplitN(s, sep, n)\<close> for a separator of one byte and \<open>n \<ge> 0\<close>: at most \<open>n\<close>
  pieces, the last one the unsplit rest.
\<close>

fun SplitN :: "string \<Rightarrow> char \<Rightarrow> nat \<Rightarrow> string list" where
  "SplitN s sep 0 = []"
| "SplitN s sep (Suc 0) = [s]"
| "SplitN s sep (Suc (Suc n)) =
     (if sep \<in> set s
      then takeWhile (\<lambda>c. c \<noteq> sep) s # SplitN (tl (dropWhile (\<lambda>c. c \<noteq> sep) s)) sep (Suc n)
      else [s])"

text \<open>
  \<^verbatim>\<open>strings.TrimSpace\<close> removes leading and trailing white space as Unicode defines it. A Go
  string is a byte sequence, so the white space code points appear in their UTF-8 encoding:
  U+0009 to U+000D, U+0020, U+0085, U+00A0, U+1680, U+2000 to U+200A, U+2028, U+2029, U+202F,
  U+205F, U+3000.
\<close>

definition whiteSpace :: "string list" where
  "whiteSpace =
     map (\<lambda>b. [b]) [CHR 0x09, CHR 0x0A, CHR 0x0B, CHR 0x0C, CHR 0x0D, CHR 0x20]
     @ [[CHR 0xC2, CHR 0x85], [CHR 0xC2, CHR 0xA0], [CHR 0xE1, CHR 0x9A, CHR 0x80]]
     @ map (\<lambda>b. [CHR 0xE2, CHR 0x80, b])
         [CHR 0x80, CHR 0x81, CHR 0x82, CHR 0x83, CHR 0x84, CHR 0x85, CHR 0x86, CHR 0x87,
          CHR 0x88, CHR 0x89, CHR 0x8A, CHR 0xA8, CHR 0xA9, CHR 0xAF]
     @ [[CHR 0xE2, CHR 0x81, CHR 0x9F], [CHR 0xE3, CHR 0x80, CHR 0x80]]"

function dropLeading :: "string list \<Rightarrow> string \<Rightarrow> string" where
  "dropLeading ws s =
     (case find (\<lambda>w. w \<noteq> [] \<and> prefix w s) ws of
        None \<Rightarrow> s
      | Some w \<Rightarrow> dropLeading ws (drop (length w) s))"
  by pat_completeness auto
termination
proof (relation "measure (\<lambda>(ws, s). length s)")
  fix ws :: "string list" and s w :: string
  assume "find (\<lambda>w. w \<noteq> [] \<and> prefix w s) ws = Some w"
  then have "w \<noteq> []" and "prefix w s"
    by (auto simp: find_Some_iff)
  then have "s \<noteq> []"
    by auto
  with \<open>w \<noteq> []\<close> show "((ws, drop (length w) s), (ws, s)) \<in> measure (\<lambda>(ws, s). length s)"
    by simp
qed simp

declare dropLeading.simps [simp del]

definition TrimSpace :: "string \<Rightarrow> string" where
  "TrimSpace s = rev (dropLeading (map rev whiteSpace) (rev (dropLeading whiteSpace s)))"

section \<open>UpdateCNIConfigByKeywords\<close>

definition hostLabelKeyword :: string where
  "hostLabelKeyword = ''__host_label__''"

text \<open>
  The loop over \<^verbatim>\<open>props\<close> is a fold over its entries; every \<^verbatim>\<open>props[aKey] = ...\<close> is an
  update of the map the loop is building, at a key the map already has. A lookup
  \<^verbatim>\<open>host.Labels[label]\<close> of an absent label gives the empty string. The function changes the
  map it is given and returns it; the model returns the changed map.
\<close>

fun UpdateCNIConfigByKeywords :: "node \<Rightarrow> Host \<Rightarrow> node" where
  "UpdateCNIConfigByKeywords (NMap props) host =
     NMap (fold (\<lambda>(aKey, aValue) props'.
        case aValue of
          NString v \<Rightarrow>
            (if prefix hostLabelKeyword v then
               (let props1 = AList.update aKey (NString '''') props';
                    splits = SplitN v (CHR '':'') 2
                in if length splits > 1 then
                     (let label = TrimSpace (splits ! 1);
                          labelValue = (case Labels host label of None \<Rightarrow> '''' | Some x \<Rightarrow> x)
                      in if labelValue \<noteq> ''''
                         then AList.update aKey (NString labelValue) props1
                         else props1)
                   else props1)
             else props')
        | _ \<Rightarrow> AList.update aKey (UpdateCNIConfigByKeywords aValue host) props') props props)"
| "UpdateCNIConfigByKeywords config host = config"

text \<open>
  What the loop leaves under one key, as the specification words it: a string with the
  reserved prefix becomes the value of the label named after the first colon, or the empty
  string; another string stays; any other value is substituted recursively.
\<close>

definition labelName :: "string \<Rightarrow> string" where
  "labelName v = TrimSpace (tl (dropWhile (\<lambda>c. c \<noteq> CHR '':'') v))"

definition substitutedString :: "string \<Rightarrow> Host \<Rightarrow> string" where
  "substitutedString v host =
     (if CHR '':'' \<in> set v
      then (case Labels host (labelName v) of None \<Rightarrow> '''' | Some x \<Rightarrow> x)
      else '''')"

definition substituted :: "Host \<Rightarrow> node \<Rightarrow> node" where
  "substituted host aValue =
     (case aValue of
        NString v \<Rightarrow>
          if prefix hostLabelKeyword v then NString (substitutedString v host) else NString v
      | _ \<Rightarrow> UpdateCNIConfigByKeywords aValue host)"

text \<open>Positions in a configuration tree: a path of map keys and list indices from the root.\<close>

datatype step = Key string | Index nat

fun nodeAt :: "node \<Rightarrow> step list \<Rightarrow> node option" where
  "nodeAt n [] = Some n"
| "nodeAt (NMap props) (Key k # p) =
     (case map_of props k of None \<Rightarrow> None | Some v \<Rightarrow> nodeAt v p)"
| "nodeAt (NList xs) (Index i # p) = (if i < length xs then nodeAt (xs ! i) p else None)"
| "nodeAt _ _ = None"

fun isMap :: "node \<Rightarrow> bool" where
  "isMap (NMap props) = True"
| "isMap _ = False"

section \<open>GetBridgeInfo\<close>

text \<open>
  \<^verbatim>\<open>x.(map[string]interface{})\<close> and \<^verbatim>\<open>props[k].(string)\<close> with the second result ignored:
  the zero value (a nil map, the empty string) when the entry is absent or of another type.
\<close>

fun asMap :: "node option \<Rightarrow> (string \<times> node) list" where
  "asMap (Some (NMap props)) = props"
| "asMap _ = []"

fun asString :: "node option \<Rightarrow> string" where
  "asString (Some (NString s)) = s"
| "asString _ = ''''"

text \<open>
  The loop over the files of the configuration, in the order the list gives, with its
  \<^verbatim>\<open>break\<close>; \<open>bridge\<close> and \<open>bridgeSubnet\<close> are the named results, empty at the start. The
  substitution also rewrites the file inside the network's metadata; the two results do
  not depend on that.
\<close>

fun bridgeLoop :: "(string \<times> node) list \<Rightarrow> Host \<Rightarrow> string \<Rightarrow> string \<Rightarrow> string \<times> string" where
  "bridgeLoop [] host bridge bridgeSubnet = (bridge, bridgeSubnet)"
| "bridgeLoop ((fileName, file) # conf) host bridge bridgeSubnet =
     (let file' = UpdateCNIConfigByKeywords file host;
          props = asMap (Some file');
          cniType = asString (map_of props ''type'');
          checkBridge = asString (map_of props ''bridge'');
          bridgeSubnet' = asString (map_of props ''bridgeSubnet'')
      in if cniType = ''rancher-bridge'' \<and> checkBridge \<noteq> ''''
         then (checkBridge, bridgeSubnet')
         else bridgeLoop conf host bridge bridgeSubnet')"

definition GetBridgeInfo :: "Network \<Rightarrow> Host \<Rightarrow> string \<times> string" where
  "GetBridgeInfo network host =
     (let conf = asMap (map_of (Metadata network) ''cniConfig'')
      in bridgeLoop conf host '''' '''')"

section \<open>GetLocalNetworksAndRouters\<close>

text \<open>Lines 74 to 78: the services of kind \<^verbatim>\<open>networkDriverService\<close>, appended in input order.\<close>

definition unfilteredCniDriverServices :: "Service list \<Rightarrow> Service list" where
  "unfilteredCniDriverServices services =
     fold (\<lambda>service acc. if Kind service = ''networkDriverService'' then acc @ [service] else acc)
       services []"

text \<open>Lines 80 to 90: unless there is exactly one, keep those named \<^verbatim>\<open>cni-driver\<close>.\<close>

definition cniDriverServices :: "Service list \<Rightarrow> Service list" where
  "cniDriverServices services =
     (let unfiltered = unfilteredCniDriverServices services
      in if length unfiltered \<noteq> 1
         then fold (\<lambda>service acc. if Name service \<noteq> ''cni-driver'' then acc else acc @ [service])
                unfiltered []
         else unfiltered)"

text \<open>
  Lines 97 to 107: the first service of the driver's stack, other than the driver, that is
  its own primary service; the zero value when the loop finds none or does not run.
\<close>

fun findNetworkService :: "Service \<Rightarrow> Service list \<Rightarrow> Service" where
  "findNetworkService driver [] = zeroService"
| "findNetworkService driver (service # rest) =
     (if StackUUID service = StackUUID driver \<and>
         Service.UUID service \<noteq> Service.UUID driver \<and>
         Name service = PrimaryServiceName service
      then service
      else findNetworkService driver rest)"

definition networkService :: "Service list \<Rightarrow> Service list \<Rightarrow> Service" where
  "networkService services drivers =
     (if length drivers > 0 then findNetworkService (drivers ! 0) services else zeroService)"

text \<open>Lines 109 to 113: a later container of the same network overwrites an earlier one.\<close>

definition localRouters :: "Service \<Rightarrow> Host \<Rightarrow> (string \<rightharpoonup> Container)" where
  "localRouters service host =
     fold (\<lambda>aContainer routers.
             if HostUUID aContainer = Host.UUID host
             then routers(NetworkUUID aContainer \<mapsto> aContainer)
             else routers)
       (Containers service) Map.empty"

text \<open>Lines 115 to 133: each \<^verbatim>\<open>continue\<close> leaves the list as it is.\<close>

definition localNetworks :: "Network list \<Rightarrow> Host \<Rightarrow> (string \<rightharpoonup> Container) \<Rightarrow> Network list" where
  "localNetworks networks host routers =
     fold (\<lambda>aNetwork acc.
             if Network.EnvironmentUUID aNetwork \<noteq> Host.EnvironmentUUID host then acc
             else if \<not> (case map_of (Metadata aNetwork) ''cniConfig'' of
                           Some n \<Rightarrow> isMap n | None \<Rightarrow> False) then acc
             else if routers (Network.UUID aNetwork) = None then acc
             else acc @ [aNetwork])
       networks []"

text \<open>
  The function from line 93 on, given the driver services that lines 74 to 90 selected, and
  the whole function. The log calls have no part in the result.
\<close>

definition resolveWith ::
  "Network list \<Rightarrow> Host \<Rightarrow> Service list \<Rightarrow> Service list \<Rightarrow> Network list \<times> (string \<rightharpoonup> Container)" where
  "resolveWith networks host services drivers =
     (let routers = localRouters (networkService services drivers) host
      in (localNetworks networks host routers, routers))"

definition GetLocalNetworksAndRouters ::
  "Network list \<Rightarrow> Host \<Rightarrow> Service list \<Rightarrow> Network list \<times> (string \<rightharpoonup> Container)" where
  "GetLocalNetworksAndRouters networks host services =
     resolveWith networks host services (cniDriverServices services)"

section \<open>GetLocalNetworksAndRoutersFromMetadata\<close>

text \<open>
  The metadata client is a collaborator with effects: each of its three methods takes the
  client's state and returns a result or an error together with the next state, so that
  the calls the function makes can be read off the state it leaves. The Go function
  returns \<^verbatim>\<open>(nil, nil, err)\<close> or \<^verbatim>\<open>(networks, routers, nil)\<close>: the error alone, or the two
  results alone.
\<close>

datatype error = Error string

record 's Client =
  GetNetworks :: "'s \<Rightarrow> (error + Network list) \<times> 's"
  GetSelfHost :: "'s \<Rightarrow> (error + Host) \<times> 's"
  GetServices :: "'s \<Rightarrow> (error + Service list) \<times> 's"

definition GetLocalNetworksAndRoutersFromMetadata ::
  "'s Client \<Rightarrow> 's \<Rightarrow> (error + Network list \<times> (string \<rightharpoonup> Container)) \<times> 's" where
  "GetLocalNetworksAndRoutersFromMetadata mc s =
     (case GetNetworks mc s of
        (Inl err, s1) \<Rightarrow> (Inl err, s1)
      | (Inr networks, s1) \<Rightarrow>
          (case GetSelfHost mc s1 of
             (Inl err, s2) \<Rightarrow> (Inl err, s2)
           | (Inr host, s2) \<Rightarrow>
               (case GetServices mc s2 of
                  (Inl err, s3) \<Rightarrow> (Inl err, s3)
                | (Inr services, s3) \<Rightarrow>
                    (Inr (GetLocalNetworksAndRouters networks host services), s3))))"

section \<open>Definitions used in the statements and proofs\<close>

text \<open>
  The body of the loop of \<open>UpdateCNIConfigByKeywords\<close>, under a name, so that lemmas can
  speak of one step of the loop.
\<close>

definition entryStep :: "Host \<Rightarrow> string \<times> node \<Rightarrow> (string \<times> node) list \<Rightarrow> (string \<times> node) list" where
  "entryStep host = (\<lambda>(aKey, aValue) props'.
        case aValue of
          NString v \<Rightarrow>
            (if prefix hostLabelKeyword v then
               (let props1 = AList.update aKey (NString '''') props';
                    splits = SplitN v (CHR '':'') 2
                in if length splits > 1 then
                     (let label = TrimSpace (splits ! 1);
                          labelValue = (case Labels host label of None \<Rightarrow> '''' | Some x \<Rightarrow> x)
                      in if labelValue \<noteq> ''''
                         then AList.update aKey (NString labelValue) props1
                         else props1)
                   else props1)
             else props')
        | _ \<Rightarrow> AList.update aKey (UpdateCNIConfigByKeywords aValue host) props')"

text \<open>
  A string field of a configuration file as \<open>GetBridgeInfo\<close> reads it, that is after the
  substitution, and the condition under which its loop stops at a file.
\<close>

definition fileField :: "Host \<Rightarrow> node \<Rightarrow> string \<Rightarrow> string" where
  "fileField host file k = asString (map_of (asMap (Some (UpdateCNIConfigByKeywords file host))) k)"

definition stopsAt :: "Host \<Rightarrow> node \<Rightarrow> bool" where
  "stopsAt host file =
     (fileField host file ''type'' = ''rancher-bridge'' \<and> fileField host file ''bridge'' \<noteq> '''')"

section \<open>Example inputs\<close>

text \<open>
  One host, a network driver stack with its driver service and its primary service, whose
  routers run on two hosts, a second driver service of another stack, a second
  self-primary service of the first stack, and networks with and without a usable
  configuration.
\<close>

definition exHost :: Host where
  "exHost = \<lparr>Host.UUID = ''host-1'', EnvironmentUUID = ''env-1'',
     Labels = [''bridge'' \<mapsto> ''docker0'']\<rparr>"

definition exRouterA :: Container where
  "exRouterA = \<lparr>Container.UUID = ''c-a'', HostUUID = ''host-1'', NetworkUUID = ''net-1'',
     State = ''stopping''\<rparr>"

definition exRouterB :: Container where
  "exRouterB = \<lparr>Container.UUID = ''c-b'', HostUUID = ''host-2'', NetworkUUID = ''net-1'',
     State = ''running''\<rparr>"

definition exRouterC :: Container where
  "exRouterC = \<lparr>Container.UUID = ''c-c'', HostUUID = ''host-1'', NetworkUUID = ''net-1'',
     State = ''running''\<rparr>"

definition exDriver :: Service where
  "exDriver = \<lparr>Service.UUID = ''s-driver'', StackUUID = ''stack-1'',
     Kind = ''networkDriverService'', Name = ''cni-driver'', PrimaryServiceName = ''ipsec'',
     Containers = []\<rparr>"

definition exOtherDriver :: Service where
  "exOtherDriver = \<lparr>Service.UUID = ''s-vxlan'', StackUUID = ''stack-2'',
     Kind = ''networkDriverService'', Name = ''vxlan-driver'', PrimaryServiceName = ''vxlan'',
     Containers = []\<rparr>"

definition exIpsec :: Service where
  "exIpsec = \<lparr>Service.UUID = ''s-ipsec'', StackUUID = ''stack-1'', Kind = ''service'',
     Name = ''ipsec'', PrimaryServiceName = ''ipsec'',
     Containers = [exRouterA, exRouterB, exRouterC]\<rparr>"

definition exHealth :: Service where
  "exHealth = \<lparr>Service.UUID = ''s-health'', StackUUID = ''stack-1'', Kind = ''service'',
     Name = ''healthcheck'', PrimaryServiceName = ''healthcheck'', Containers = []\<rparr>"

definition exBridgeFile :: node where
  "exBridgeFile = NMap [(''type'', NString ''rancher-bridge''), (''bridge'', NString ''docker0''),
     (''bridgeSubnet'', NString ''10.42.0.0/16'')]"

definition exLabelFile :: node where
  "exLabelFile = NMap [(''type'', NString ''rancher-bridge''),
     (''bridge'', NString ''__host_label__: bridge''),
     (''bridgeSubnet'', NString ''10.43.0.0/16''),
     (''args'', NList [NString ''__host_label__:bridge'', NMap [(''mtu'', NString ''__host_label__:bridge'')]])]"

definition exNet :: Network where
  "exNet = \<lparr>Network.UUID = ''net-1'', EnvironmentUUID = ''env-1'',
     Metadata = [(''cniConfig'', NMap [(''10-rancher.conf'', exBridgeFile)])]\<rparr>"

definition exForeignNet :: Network where
  "exForeignNet = \<lparr>Network.UUID = ''net-1'', EnvironmentUUID = ''env-2'',
     Metadata = [(''cniConfig'', NMap [(''10-rancher.conf'', exBridgeFile)])]\<rparr>"

definition exBareNet :: Network where
  "exBareNet = \<lparr>Network.UUID = ''net-1'', EnvironmentUUID = ''env-1'',
     Metadata = [(''cniConfig'', NString ''none'')]\<rparr>"

definition exTwoFileNet :: Network where
  "exTwoFileNet = \<lparr>Network.UUID = ''net-2'', EnvironmentUUID = ''env-1'',
     Metadata = [(''cniConfig'', NMap [(''00-lo.conf'', NMap [(''type'', NString ''loopback'')]),
                                      (''10-rancher.conf'', exLabelFile)])]\<rparr>"

text \<open>
  A metadata client that answers with three fixed results and records each call in its
  state.
\<close>

definition logClient ::
  "error + Network list \<Rightarrow> error + Host \<Rightarrow> error + Service list \<Rightarrow> string list Client" where
  "logClient networks host services =
     \<lparr>GetNetworks = (\<lambda>log. (networks, log @ [''GetNetworks''])),
      GetSelfHost = (\<lambda>log. (host, log @ [''GetSelfHost''])),
      GetServices = (\<lambda>log. (services, log @ [''GetServices'']))\<rparr>"

lemmas ex_defs = exHost_def exRouterA_def exRouterB_def exRouterC_def exDriver_def
  exOtherDriver_def exIpsec_def exHealth_def exBridgeFile_def exNet_def exForeignNet_def
  exBareNet_def

section \<open>The substitution as a map over the entries\<close>

text \<open>
  With unique keys every step of the loop rewrites the entry it visits and no other, so the
  loop maps \<open>substituted\<close> over the values, whatever the order of the visit.
\<close>

lemma update_fresh_prefix:
  "k \<notin> fst ` set pre \<Longrightarrow> AList.update k x (pre @ (k, v) # post) = pre @ (k, x) # post"
  by (induction pre) auto

lemma SplitN_colon:
  "SplitN v (CHR '':'') 2 =
     (if CHR '':'' \<in> set v
      then [takeWhile (\<lambda>c. c \<noteq> CHR '':'') v, tl (dropWhile (\<lambda>c. c \<noteq> CHR '':'') v)]
      else [v])"
  by (simp add: numeral_2_eq_2)

lemma entryStep_at:
  assumes "k \<notin> fst ` set pre"
  shows "entryStep host (k, v) (pre @ (k, v) # post) = pre @ (k, substituted host v) # post"
proof (cases v)
  case (NString s)
  show ?thesis
    using assms
    by (simp add: NString entryStep_def substituted_def substitutedString_def labelName_def
        SplitN_colon update_fresh_prefix Let_def split: option.splits)
qed (use assms in \<open>simp_all add: entryStep_def substituted_def update_fresh_prefix\<close>)

lemma fold_entryStep:
  assumes "distinct (map fst (done @ todo))"
  shows "fold (entryStep host) todo (map (\<lambda>(k, v). (k, substituted host v)) done @ todo)
         = map (\<lambda>(k, v). (k, substituted host v)) (done @ todo)"
  using assms
proof (induction todo arbitrary: "done")
  case Nil
  then show ?case by simp
next
  case (Cons e todo)
  obtain k v where e: "e = (k, v)" by (cases e)
  have fresh: "k \<notin> fst ` set (map (\<lambda>(k, v). (k, substituted host v)) done)"
    using Cons.prems by (force simp: e)
  have "distinct (map fst ((done @ [e]) @ todo))"
    using Cons.prems by simp
  from Cons.IH [OF this] show ?case
    by (simp add: e entryStep_at [OF fresh])
qed

declare UpdateCNIConfigByKeywords.simps(1) [simp del]

lemma Update_NMap:
  assumes "distinct (map fst props)"
  shows "UpdateCNIConfigByKeywords (NMap props) host
         = NMap (map (\<lambda>(k, v). (k, substituted host v)) props)"
  using fold_entryStep [of "[]" props host] assms
  by (simp add: entryStep_def UpdateCNIConfigByKeywords.simps(1))

lemma substituted_simps:
  "substituted host (NString v) =
     (if prefix hostLabelKeyword v then NString (substitutedString v host) else NString v)"
  "substituted host (NMap props) = UpdateCNIConfigByKeywords (NMap props) host"
  "substituted host (NList xs) = NList xs"
  "substituted host (NNumber i) = NNumber i"
  "substituted host (NBool b) = NBool b"
  "substituted host NNil = NNil"
  by (simp_all add: substituted_def)

lemma substituted_not_string:
  "\<forall>s. v \<noteq> NString s \<Longrightarrow> substituted host v = UpdateCNIConfigByKeywords v host"
  by (cases v) (simp_all add: substituted_def)

lemma map_of_substituted:
  "map_of (map (\<lambda>(k, v). (k, substituted host v)) props) k
   = map_option (substituted host) (map_of props k)"
  by (induction props) auto

lemma uniqueKeys_Update:
  "uniqueKeys n \<Longrightarrow> uniqueKeys (UpdateCNIConfigByKeywords n host)"
proof (induction n)
  case (NMap props)
  have d: "distinct (map fst props)"
    using NMap.prems by simp
  have "uniqueKeys (substituted host v)" if "(k, v) \<in> set props" for k v
  proof (cases "\<exists>s. v = NString s")
    case True
    then show ?thesis by (auto simp: substituted_simps)
  next
    case False
    then have "substituted host v = UpdateCNIConfigByKeywords v host"
      by (simp add: substituted_not_string)
    moreover have "uniqueKeys v"
      using NMap.prems that by auto
    ultimately show ?thesis
      using NMap.IH [of "(k, v)" v] that by simp
  qed
  with d show ?case
    by (auto simp: Update_NMap [OF d] comp_def case_prod_unfold)
qed simp_all

lemma Update_same_kind:
  "(\<forall>s. n \<noteq> NString s) \<Longrightarrow> (\<forall>s. UpdateCNIConfigByKeywords n host \<noteq> NString s)"
  by (cases n) (simp_all add: UpdateCNIConfigByKeywords.simps(1))

lemma keyword_not_prefix_empty: "hostLabelKeyword \<noteq> []"
  by (simp add: hostLabelKeyword_def)

lemma substitutedString_no_prefix:
  assumes "\<forall>l x. Labels host l = Some x \<longrightarrow> \<not> prefix hostLabelKeyword x"
  shows "\<not> prefix hostLabelKeyword (substitutedString v host)"
  using assms
  by (auto simp: substitutedString_def keyword_not_prefix_empty split: option.splits)

lemma Update_twice:
  assumes labels: "\<forall>l x. Labels host l = Some x \<longrightarrow> \<not> prefix hostLabelKeyword x"
  shows "uniqueKeys n \<Longrightarrow>
    UpdateCNIConfigByKeywords (UpdateCNIConfigByKeywords n host) host
    = UpdateCNIConfigByKeywords n host"
proof (induction n)
  case (NMap props)
  let ?f = "\<lambda>(k, v). (k, substituted host v)"
  have d: "distinct (map fst props)"
    using NMap.prems by simp
  have d': "distinct (map fst (map ?f props))"
    using d by (simp add: comp_def case_prod_unfold)
  have twice: "substituted host (substituted host v) = substituted host v"
    if "(k, v) \<in> set props" for k v
  proof (cases "\<exists>s. v = NString s")
    case True
    then show ?thesis
      using substitutedString_no_prefix [OF labels]
      by (auto simp: substituted_simps)
  next
    case False
    then have s: "substituted host v = UpdateCNIConfigByKeywords v host"
      by (simp add: substituted_not_string)
    have "\<forall>s. UpdateCNIConfigByKeywords v host \<noteq> NString s"
      using False Update_same_kind by blast
    then have "substituted host (UpdateCNIConfigByKeywords v host)
               = UpdateCNIConfigByKeywords (UpdateCNIConfigByKeywords v host) host"
      by (rule substituted_not_string)
    moreover have "uniqueKeys v"
      using NMap.prems that by auto
    ultimately show ?thesis
      using NMap.IH [of "(k, v)" v] that by (simp add: s)
  qed
  have "map ?f (map ?f props) = map ?f props"
    using twice by (auto simp: case_prod_unfold)
  then show ?case
    by (simp add: Update_NMap [OF d] Update_NMap [OF d'])
qed simp_all

lemma nodeAt_Update_keeps:
  "uniqueKeys n \<Longrightarrow> nodeAt n p = Some m \<Longrightarrow>
   (\<exists>xs. m = NList xs) \<or> (\<exists>s. m = NString s \<and> \<not> prefix hostLabelKeyword s) \<Longrightarrow>
   nodeAt (UpdateCNIConfigByKeywords n host) p = Some m"
proof (induction n p rule: nodeAt.induct)
  case (1 n)
  then show ?case by auto
next
  case (2 props k p)
  have d: "distinct (map fst props)"
    using "2.prems" by simp
  from "2.prems" obtain v where v: "map_of props k = Some v" and at: "nodeAt v p = Some m"
    by (auto split: option.splits)
  have uv: "uniqueKeys v"
    using "2.prems"(1) map_of_SomeD [OF v] by auto
  have "nodeAt (substituted host v) p = Some m"
  proof (cases "\<exists>s. v = NString s")
    case True
    then obtain s where s: "v = NString s" by blast
    with at have "p = []" by (cases p) simp_all
    with at s "2.prems"(3) show ?thesis
      by (auto simp: substituted_simps)
  next
    case False
    then show ?thesis
      using "2.IH" [OF v uv at "2.prems"(3)] by (simp add: substituted_not_string)
  qed
  then show ?case
    by (simp add: Update_NMap [OF d] map_of_substituted v)
qed simp_all

lemma nodeAt_append:
  "nodeAt n (p @ q) = (case nodeAt n p of None \<Rightarrow> None | Some m \<Rightarrow> nodeAt m q)"
  by (induction n p rule: nodeAt.induct) (auto split: option.splits)

lemma nodeAt_Index_is_list:
  "nodeAt m (Index i # q) = Some x \<Longrightarrow> \<exists>xs. m = NList xs"
  by (cases m) simp_all

lemma TrimSpace_bridge: "TrimSpace '' bridge'' = ''bridge''"
  by code_simp

lemma TrimSpace_unicode:
  "TrimSpace [CHR 0x09, CHR 0xE2, CHR 0x80, CHR 0x83, CHR ''a'', CHR '' '', CHR ''b'',
              CHR 0xC2, CHR 0xA0, CHR 0x0A] = ''a b''"
  by code_simp

section \<open>The loops of GetBridgeInfo and GetLocalNetworksAndRouters\<close>

lemma bridgeLoop_first:
  assumes "\<forall>(n, f) \<in> set pre. \<not> stopsAt host f" and "stopsAt host cfg"
  shows "bridgeLoop (pre @ (fileName, cfg) # post) host b s
         = (fileField host cfg ''bridge'', fileField host cfg ''bridgeSubnet'')"
  using assms
  by (induction pre arbitrary: b s) (auto simp: stopsAt_def fileField_def Let_def)

lemma fileField_plain:
  assumes "distinct (map fst props)" and "map_of props k = Some (NString s)"
    and "\<not> prefix hostLabelKeyword s"
  shows "fileField host (NMap props) k = s"
  using assms(2,3)
  by (simp add: fileField_def Update_NMap [OF assms(1)] map_of_substituted substituted_simps)

lemma fileField_exLabelFile:
  "fileField exHost exLabelFile ''type'' = ''rancher-bridge''"
  "fileField exHost exLabelFile ''bridge'' = ''docker0''"
  "fileField exHost exLabelFile ''bridgeSubnet'' = ''10.43.0.0/16''"
proof -
  have d: "distinct (map fst [(''type'', NString ''rancher-bridge''),
     (''bridge'', NString ''__host_label__: bridge''),
     (''bridgeSubnet'', NString ''10.43.0.0/16''),
     (''args'', NList [NString ''__host_label__:bridge'', NMap [(''mtu'', NString ''__host_label__:bridge'')]])])"
    by simp
  show "fileField exHost exLabelFile ''type'' = ''rancher-bridge''"
    "fileField exHost exLabelFile ''bridge'' = ''docker0''"
    "fileField exHost exLabelFile ''bridgeSubnet'' = ''10.43.0.0/16''"
    unfolding exLabelFile_def fileField_def Update_NMap [OF d]
    by (simp_all add: substituted_simps substitutedString_def labelName_def hostLabelKeyword_def
        TrimSpace_bridge exHost_def)
qed

lemma fold_append_if:
  "fold (\<lambda>x acc. if P x then acc @ [x] else acc) xs acc = acc @ filter P xs"
  by (induction xs arbitrary: acc) simp_all

lemma fold_append_unless:
  "fold (\<lambda>x acc. if \<not> P x then acc else acc @ [x]) xs acc = acc @ filter P xs"
  by (induction xs arbitrary: acc) simp_all

lemma unfilteredCniDriverServices_filter:
  "unfilteredCniDriverServices services
   = filter (\<lambda>s. Kind s = ''networkDriverService'') services"
  using fold_append_if [of "\<lambda>s. Kind s = ''networkDriverService''" services "[]"]
  by (simp add: unfilteredCniDriverServices_def)

lemma cniDriverServices_filter:
  "cniDriverServices services =
     (if length (filter (\<lambda>s. Kind s = ''networkDriverService'') services) \<noteq> 1
      then filter (\<lambda>s. Name s = ''cni-driver'')
             (filter (\<lambda>s. Kind s = ''networkDriverService'') services)
      else filter (\<lambda>s. Kind s = ''networkDriverService'') services)"
proof -
  have named: "fold (\<lambda>service acc. if Name service \<noteq> ''cni-driver'' then acc else acc @ [service]) xs []
        = filter (\<lambda>s. Name s = ''cni-driver'') xs" for xs
    using fold_append_unless [of "\<lambda>s. Name s = ''cni-driver''" xs "[]"]
    by simp
  show ?thesis
    unfolding cniDriverServices_def unfilteredCniDriverServices_filter Let_def named
    by (rule refl)
qed

lemma findNetworkService_first:
  assumes "\<forall>x \<in> set pre. \<not> (StackUUID x = StackUUID d \<and> Service.UUID x \<noteq> Service.UUID d
                              \<and> Name x = PrimaryServiceName x)"
    and "StackUUID s = StackUUID d" and "Service.UUID s \<noteq> Service.UUID d"
    and "Name s = PrimaryServiceName s"
  shows "findNetworkService d (pre @ s # post) = s"
  using assms by (induction pre) auto

lemma fold_routers:
  "fold (\<lambda>c routers. if P c then routers(k c \<mapsto> c) else routers) cs m
   = m ++ map_of (rev (map (\<lambda>c. (k c, c)) (filter P cs)))"
proof (induction cs arbitrary: m)
  case Nil
  then show ?case by simp
next
  case (Cons c cs)
  show ?case
    by (auto simp: Cons.IH fun_eq_iff map_add_def split: option.splits)
qed

lemma localRouters_map_of:
  "localRouters service host =
     map_of (rev (map (\<lambda>c. (NetworkUUID c, c))
                   (filter (\<lambda>c. HostUUID c = Host.UUID host) (Containers service))))"
  using fold_routers [of "\<lambda>c. HostUUID c = Host.UUID host" NetworkUUID "Containers service" Map.empty]
  by (simp add: localRouters_def)

lemma localNetworks_filter:
  "localNetworks networks host routers =
     filter (\<lambda>n. Network.EnvironmentUUID n = Host.EnvironmentUUID host
                \<and> (\<exists>props. map_of (Metadata n) ''cniConfig'' = Some (NMap props))
                \<and> Network.UUID n \<in> dom routers) networks"
proof -
  let ?ok = "\<lambda>n. Network.EnvironmentUUID n = Host.EnvironmentUUID host
                \<and> (\<exists>props. map_of (Metadata n) ''cniConfig'' = Some (NMap props))
                \<and> Network.UUID n \<in> dom routers"
  have hasMap: "(case x of Some n \<Rightarrow> isMap n | None \<Rightarrow> False) = (\<exists>props. x = Some (NMap props))"
    for x :: "node option"
  proof (cases x)
    case None
    then show ?thesis by simp
  next
    case (Some n)
    then show ?thesis by (cases n) simp_all
  qed
  have body: "(\<lambda>aNetwork acc.
             if Network.EnvironmentUUID aNetwork \<noteq> Host.EnvironmentUUID host then acc
             else if \<not> (case map_of (Metadata aNetwork) ''cniConfig'' of
                           Some n \<Rightarrow> isMap n | None \<Rightarrow> False) then acc
             else if routers (Network.UUID aNetwork) = None then acc
             else acc @ [aNetwork])
        = (\<lambda>x acc. if ?ok x then acc @ [x] else acc)"
    by (auto simp: fun_eq_iff hasMap dom_def)
  show ?thesis
    unfolding localNetworks_def body by (simp add: fold_append_if)
qed

lemma snd_GetLocalNetworksAndRouters:
  "snd (GetLocalNetworksAndRouters networks host services)
   = localRouters (networkService services (cniDriverServices services)) host"
  by (simp add: GetLocalNetworksAndRouters_def resolveWith_def Let_def)

lemma fst_GetLocalNetworksAndRouters:
  "fst (GetLocalNetworksAndRouters networks host services)
   = localNetworks networks host (snd (GetLocalNetworksAndRouters networks host services))"
  by (simp add: GetLocalNetworksAndRouters_def resolveWith_def Let_def)

lemma findNetworkService_find:
  "findNetworkService d services =
     (case find (\<lambda>x. StackUUID x = StackUUID d \<and> Service.UUID x \<noteq> Service.UUID d
                       \<and> Name x = PrimaryServiceName x) services of
        None \<Rightarrow> zeroService
      | Some s \<Rightarrow> s)"
  by (induction services) simp_all

lemma resolveWith_pair:
  "resolveWith networks host services drivers =
     (filter (\<lambda>n. Network.EnvironmentUUID n = Host.EnvironmentUUID host
                  \<and> (\<exists>props. map_of (Metadata n) ''cniConfig'' = Some (NMap props))
                  \<and> Network.UUID n \<in> dom (localRouters (networkService services drivers) host))
        networks,
      localRouters (networkService services drivers) host)"
  by (simp add: resolveWith_def Let_def localNetworks_filter)

lemma routers_of_drivers:
  "localRouters (networkService services drivers) host =
     (case drivers of
        [] \<Rightarrow> Map.empty
      | d # rest \<Rightarrow>
          (case find (\<lambda>x. StackUUID x = StackUUID d \<and> Service.UUID x \<noteq> Service.UUID d
                            \<and> Name x = PrimaryServiceName x) services of
             None \<Rightarrow> Map.empty
           | Some s \<Rightarrow>
               map_of (rev (map (\<lambda>c. (NetworkUUID c, c))
                             (filter (\<lambda>c. HostUUID c = Host.UUID host) (Containers s))))))"
  by (simp add: networkService_def findNetworkService_find localRouters_map_of zeroService_def
      split: list.splits option.splits)

section \<open>The claims of the specification\<close>

subsection \<open>C1: the network service and the local routers\<close>

text \<open>
  C1, as stated, fails: the services may hold exactly one driver service and a service of
  its stack, with another UUID, that is its own primary service, and the function still
  selects another service, because the loop of lines 99 to 106 stops at the first service
  of that kind. Here \<open>exHealth\<close> precedes \<open>exIpsec\<close>; both qualify, \<open>exHealth\<close> is selected,
  and the router that \<open>exIpsec\<close> runs on the host is not in the returned map.
\<close>

theorem later_primary_service_counterexample:
  "filter (\<lambda>x. Kind x = ''networkDriverService'') [exDriver, exHealth, exIpsec] = [exDriver]
   \<and> exIpsec \<in> set [exDriver, exHealth, exIpsec]
   \<and> StackUUID exIpsec = StackUUID exDriver
   \<and> Service.UUID exIpsec \<noteq> Service.UUID exDriver
   \<and> Name exIpsec = PrimaryServiceName exIpsec
   \<and> networkService [exDriver, exHealth, exIpsec] (cniDriverServices [exDriver, exHealth, exIpsec])
       \<noteq> exIpsec
   \<and> exRouterC \<in> set (Containers exIpsec)
   \<and> HostUUID exRouterC = Host.UUID exHost
   \<and> snd (GetLocalNetworksAndRouters [exNet] exHost [exDriver, exHealth, exIpsec])
        (NetworkUUID exRouterC) = None"
  by (simp add: ex_defs cniDriverServices_filter networkService_def
      snd_GetLocalNetworksAndRouters localRouters_map_of)

text \<open>
  C1, amended: when the services hold exactly one service of kind \<^verbatim>\<open>networkDriverService\<close>,
  the first service in input order that is in the driver's stack, has another UUID and is
  its own primary service is selected as the network service, and the returned router map
  holds exactly the containers of that service whose HostUUID is the host's UUID, each under
  its NetworkUUID, a later container overwriting an earlier one of the same network.
\<close>

theorem routers_of_first_primary_service:
  assumes "filter (\<lambda>x. Kind x = ''networkDriverService'') services = [d]"
    and "services = pre @ s # post"
    and "\<forall>x \<in> set pre. \<not> (StackUUID x = StackUUID d \<and> Service.UUID x \<noteq> Service.UUID d
                               \<and> Name x = PrimaryServiceName x)"
    and "StackUUID s = StackUUID d"
    and "Service.UUID s \<noteq> Service.UUID d"
    and "Name s = PrimaryServiceName s"
  shows "networkService services (cniDriverServices services) = s
    \<and> snd (GetLocalNetworksAndRouters networks host services)
      = map_of (rev (map (\<lambda>c. (NetworkUUID c, c))
                      (filter (\<lambda>c. HostUUID c = Host.UUID host) (Containers s))))"
proof -
  have "cniDriverServices services = [d]"
    by (simp add: cniDriverServices_filter assms(1))
  moreover have "findNetworkService d services = s"
    unfolding assms(2) using assms(3-6) by (rule findNetworkService_first)
  ultimately have sel: "networkService services (cniDriverServices services) = s"
    by (simp add: networkService_def)
  then show ?thesis
    by (simp add: GetLocalNetworksAndRouters_def resolveWith_def Let_def localRouters_map_of)
qed

theorem routers_of_first_primary_service_witness:
  "filter (\<lambda>x. Kind x = ''networkDriverService'') [exDriver, exIpsec, exHealth] = [exDriver]
   \<and> [exDriver, exIpsec, exHealth] = [exDriver] @ exIpsec # [exHealth]
   \<and> \<not> (StackUUID exDriver = StackUUID exDriver
          \<and> Service.UUID exDriver \<noteq> Service.UUID exDriver
          \<and> Name exDriver = PrimaryServiceName exDriver)
   \<and> StackUUID exIpsec = StackUUID exDriver
   \<and> Service.UUID exIpsec \<noteq> Service.UUID exDriver
   \<and> Name exIpsec = PrimaryServiceName exIpsec
   \<and> networkService [exDriver, exIpsec, exHealth] (cniDriverServices [exDriver, exIpsec, exHealth])
       = exIpsec
   \<and> snd (GetLocalNetworksAndRouters [exNet] exHost [exDriver, exIpsec, exHealth])
       = [''net-1'' \<mapsto> exRouterC]"
proof -
  have h1: "filter (\<lambda>x. Kind x = ''networkDriverService'') [exDriver, exIpsec, exHealth] = [exDriver]"
    by (simp add: ex_defs)
  have h2: "[exDriver, exIpsec, exHealth] = [exDriver] @ exIpsec # [exHealth]"
    by simp
  have h3: "\<forall>x \<in> set [exDriver]. \<not> (StackUUID x = StackUUID exDriver
          \<and> Service.UUID x \<noteq> Service.UUID exDriver \<and> Name x = PrimaryServiceName x)"
    by simp
  have h4: "StackUUID exIpsec = StackUUID exDriver"
    and h5: "Service.UUID exIpsec \<noteq> Service.UUID exDriver"
    and h6: "Name exIpsec = PrimaryServiceName exIpsec"
    by (simp_all add: ex_defs)
  have r: "map_of (rev (map (\<lambda>c. (NetworkUUID c, c))
                      (filter (\<lambda>c. HostUUID c = Host.UUID exHost) (Containers exIpsec))))
           = [''net-1'' \<mapsto> exRouterC]"
    by (simp add: exIpsec_def exHost_def exRouterA_def exRouterB_def exRouterC_def)
  note c = routers_of_first_primary_service [OF h1 h2 h3 h4 h5 h6, of "[exNet]" exHost,
      unfolded r]
  have h3': "\<not> (StackUUID exDriver = StackUUID exDriver
          \<and> Service.UUID exDriver \<noteq> Service.UUID exDriver
          \<and> Name exDriver = PrimaryServiceName exDriver)"
    by simp
  show ?thesis
    by (intro conjI h1 h2 h3' h4 h5 h6 conjunct1 [OF c] conjunct2 [OF c])
qed

subsection \<open>C2: the local networks\<close>

text \<open>
  C2: the returned networks are the input networks, in input order, whose EnvironmentUUID
  is the host's, whose metadata has a \<^verbatim>\<open>cniConfig\<close> entry that is a string-keyed mapping, and
  whose UUID is a key of the returned router map; so no returned network belongs to another
  environment.
\<close>

theorem local_networks_selected:
  "fst (GetLocalNetworksAndRouters networks host services)
     = filter (\<lambda>n. Network.EnvironmentUUID n = Host.EnvironmentUUID host
                  \<and> (\<exists>props. map_of (Metadata n) ''cniConfig'' = Some (NMap props))
                  \<and> Network.UUID n \<in> dom (snd (GetLocalNetworksAndRouters networks host services)))
         networks
   \<and> (\<forall>n \<in> set (fst (GetLocalNetworksAndRouters networks host services)).
         Network.EnvironmentUUID n = Host.EnvironmentUUID host)"
  by (simp add: GetLocalNetworksAndRouters_def resolveWith_def Let_def localNetworks_filter)

theorem local_networks_selected_witness:
  "fst (GetLocalNetworksAndRouters [exForeignNet, exBareNet, exNet] exHost [exDriver, exIpsec])
     = [exNet]
   \<and> exNet \<in> set (fst (GetLocalNetworksAndRouters [exForeignNet, exBareNet, exNet] exHost
                          [exDriver, exIpsec]))
   \<and> Network.EnvironmentUUID exNet = Host.EnvironmentUUID exHost"
proof -
  have r: "snd (GetLocalNetworksAndRouters [exForeignNet, exBareNet, exNet] exHost
                 [exDriver, exIpsec]) = [''net-1'' \<mapsto> exRouterC]"
    by (simp add: ex_defs cniDriverServices_filter networkService_def
        snd_GetLocalNetworksAndRouters localRouters_map_of)
  have f: "fst (GetLocalNetworksAndRouters [exForeignNet, exBareNet, exNet] exHost
                 [exDriver, exIpsec]) = [exNet]"
    using local_networks_selected [of "[exForeignNet, exBareNet, exNet]" exHost "[exDriver, exIpsec]"]
    unfolding r by (simp add: ex_defs)
  show ?thesis
    using local_networks_selected [of "[exForeignNet, exBareNet, exNet]" exHost "[exDriver, exIpsec]"]
    unfolding f by simp
qed

subsection \<open>C3: errors of the metadata client\<close>

text \<open>
  C3: when a fetch fails, the function returns the error of that fetch and no results, and
  the client is left in the state after that fetch, so no later fetch was made; when the
  three fetches succeed it returns the two results of \<open>GetLocalNetworksAndRouters\<close>.
\<close>

theorem metadata_errors_pass_through:
  "(GetNetworks mc s = (Inl err, s1) \<longrightarrow>
      GetLocalNetworksAndRoutersFromMetadata mc s = (Inl err, s1))
   \<and> (GetNetworks mc s = (Inr networks, s1) \<and> GetSelfHost mc s1 = (Inl err, s2) \<longrightarrow>
      GetLocalNetworksAndRoutersFromMetadata mc s = (Inl err, s2))
   \<and> (GetNetworks mc s = (Inr networks, s1) \<and> GetSelfHost mc s1 = (Inr host, s2)
       \<and> GetServices mc s2 = (Inl err, s3) \<longrightarrow>
      GetLocalNetworksAndRoutersFromMetadata mc s = (Inl err, s3))
   \<and> (GetNetworks mc s = (Inr networks, s1) \<and> GetSelfHost mc s1 = (Inr host, s2)
       \<and> GetServices mc s2 = (Inr services, s3) \<longrightarrow>
      GetLocalNetworksAndRoutersFromMetadata mc s
        = (Inr (GetLocalNetworksAndRouters networks host services), s3))"
  by (simp add: GetLocalNetworksAndRoutersFromMetadata_def)

theorem metadata_errors_pass_through_witness:
  "GetLocalNetworksAndRoutersFromMetadata
      (logClient (Inl (Error ''networks'')) (Inl (Error ''host'')) (Inl (Error ''services''))) []
     = (Inl (Error ''networks''), [''GetNetworks''])
   \<and> GetLocalNetworksAndRoutersFromMetadata
      (logClient (Inr [exNet]) (Inl (Error ''host'')) (Inl (Error ''services''))) []
     = (Inl (Error ''host''), [''GetNetworks'', ''GetSelfHost''])
   \<and> GetLocalNetworksAndRoutersFromMetadata
      (logClient (Inr [exNet]) (Inr exHost) (Inl (Error ''services''))) []
     = (Inl (Error ''services''), [''GetNetworks'', ''GetSelfHost'', ''GetServices''])
   \<and> GetLocalNetworksAndRoutersFromMetadata
      (logClient (Inr [exNet]) (Inr exHost) (Inr [exDriver, exIpsec])) []
     = (Inr (GetLocalNetworksAndRouters [exNet] exHost [exDriver, exIpsec]),
        [''GetNetworks'', ''GetSelfHost'', ''GetServices''])"
proof -
  have 1: "GetLocalNetworksAndRoutersFromMetadata
      (logClient (Inl (Error ''networks'')) (Inl (Error ''host'')) (Inl (Error ''services''))) []
     = (Inl (Error ''networks''), [''GetNetworks''])"
    using metadata_errors_pass_through [of
        "logClient (Inl (Error ''networks'')) (Inl (Error ''host'')) (Inl (Error ''services''))"
        "[]" "Error ''networks''" "[''GetNetworks'']"]
    by (simp add: logClient_def)
  have 2: "GetLocalNetworksAndRoutersFromMetadata
      (logClient (Inr [exNet]) (Inl (Error ''host'')) (Inl (Error ''services''))) []
     = (Inl (Error ''host''), [''GetNetworks'', ''GetSelfHost''])"
    using metadata_errors_pass_through [of
        "logClient (Inr [exNet]) (Inl (Error ''host'')) (Inl (Error ''services''))"
        "[]" "Error ''host''" "[''GetNetworks'']" "[exNet]" "[''GetNetworks'', ''GetSelfHost'']"]
    by (simp add: logClient_def)
  have 3: "GetLocalNetworksAndRoutersFromMetadata
      (logClient (Inr [exNet]) (Inr exHost) (Inl (Error ''services''))) []
     = (Inl (Error ''services''), [''GetNetworks'', ''GetSelfHost'', ''GetServices''])"
    using metadata_errors_pass_through [of
        "logClient (Inr [exNet]) (Inr exHost) (Inl (Error ''services''))"
        "[]" "Error ''services''" "[''GetNetworks'']" "[exNet]" "[''GetNetworks'', ''GetSelfHost'']"
        exHost "[''GetNetworks'', ''GetSelfHost'', ''GetServices'']"]
    by (simp add: logClient_def)
  have 4: "GetLocalNetworksAndRoutersFromMetadata
      (logClient (Inr [exNet]) (Inr exHost) (Inr [exDriver, exIpsec])) []
     = (Inr (GetLocalNetworksAndRouters [exNet] exHost [exDriver, exIpsec]),
        [''GetNetworks'', ''GetSelfHost'', ''GetServices''])"
    using metadata_errors_pass_through [of
        "logClient (Inr [exNet]) (Inr exHost) (Inr [exDriver, exIpsec])"
        "[]" "Error ''none''" "[''GetNetworks'']" "[exNet]" "[''GetNetworks'', ''GetSelfHost'']"
        exHost "[''GetNetworks'', ''GetSelfHost'', ''GetServices'']" "[exDriver, exIpsec]"]
    by (simp add: logClient_def)
  show ?thesis
    by (intro conjI 1 2 3 4)
qed

subsection \<open>C4: the value that replaces a host label placeholder\<close>

text \<open>
  C4: in a mapping, a string value with the prefix \<^verbatim>\<open>__host_label__\<close> is replaced: when it
  contains a colon, by the host's label named by the trimmed text after the first colon if
  that label has a non-empty value, and by the empty string if the label is absent or
  empty; when it contains no colon, by the empty string.
\<close>

theorem host_label_substitution:
  assumes "distinct (map fst props)"
    and "(aKey, NString v) \<in> set props"
    and "prefix hostLabelKeyword v"
  shows "nodeAt (UpdateCNIConfigByKeywords (NMap props) host) [Key aKey] =
    Some (NString
      (if CHR '':'' \<in> set v
       then (case Labels host (TrimSpace (tl (dropWhile (\<lambda>c. c \<noteq> CHR '':'') v))) of
               None \<Rightarrow> ''''
             | Some x \<Rightarrow> if x \<noteq> '''' then x else '''')
       else ''''))"
proof -
  have "map_of props aKey = Some (NString v)"
    using assms(1,2) by simp
  then show ?thesis
    using assms(3)
    by (simp add: Update_NMap [OF assms(1)] map_of_substituted substituted_simps
        substitutedString_def labelName_def split: option.splits)
qed

theorem host_label_substitution_witness:
  "distinct (map fst [(''bridge'', NString ''__host_label__: br ''), (''mtu'', NNumber 1500)])
   \<and> (''bridge'', NString ''__host_label__: br '')
       \<in> set [(''bridge'', NString ''__host_label__: br ''), (''mtu'', NNumber 1500)]
   \<and> prefix hostLabelKeyword ''__host_label__: br ''
   \<and> nodeAt (UpdateCNIConfigByKeywords
        (NMap [(''bridge'', NString ''__host_label__: br ''), (''mtu'', NNumber 1500)])
        \<lparr>Host.UUID = ''h1'', EnvironmentUUID = ''e1'', Labels = [''br'' \<mapsto> ''docker0'']\<rparr>)
        [Key ''bridge''] = Some (NString ''docker0'')"
proof -
  have t: "TrimSpace '' br '' = ''br''"
    by code_simp
  have d: "distinct (map fst [(''bridge'', NString ''__host_label__: br ''), (''mtu'', NNumber 1500)])"
    by simp
  have m: "(''bridge'', NString ''__host_label__: br '')
       \<in> set [(''bridge'', NString ''__host_label__: br ''), (''mtu'', NNumber 1500)]"
    by simp
  have p: "prefix hostLabelKeyword ''__host_label__: br ''"
    by (simp add: hostLabelKeyword_def)
  show ?thesis
    using d m p host_label_substitution [OF d m p,
        of "\<lparr>Host.UUID = ''h1'', EnvironmentUUID = ''e1'', Labels = [''br'' \<mapsto> ''docker0'']\<rparr>"]
    by (simp add: t)
qed

subsection \<open>C5: substituting twice\<close>

text \<open>
  C5, as stated, fails: a label value may itself begin with the reserved prefix, and the
  second substitution then replaces what the first one put in.
\<close>

theorem substitution_twice_counterexample:
  "UpdateCNIConfigByKeywords
     (UpdateCNIConfigByKeywords (NMap [(''k'', NString ''__host_label__:a'')])
        \<lparr>Host.UUID = ''h1'', EnvironmentUUID = ''e1'',
          Labels = [''a'' \<mapsto> ''__host_label__:b'', ''b'' \<mapsto> ''x'']\<rparr>)
     \<lparr>Host.UUID = ''h1'', EnvironmentUUID = ''e1'',
       Labels = [''a'' \<mapsto> ''__host_label__:b'', ''b'' \<mapsto> ''x'']\<rparr>
   \<noteq> UpdateCNIConfigByKeywords (NMap [(''k'', NString ''__host_label__:a'')])
        \<lparr>Host.UUID = ''h1'', EnvironmentUUID = ''e1'',
          Labels = [''a'' \<mapsto> ''__host_label__:b'', ''b'' \<mapsto> ''x'']\<rparr>"
proof -
  have a: "TrimSpace ''a'' = ''a''" and b: "TrimSpace ''b'' = ''b''"
    by code_simp+
  show ?thesis
    by (simp add: UpdateCNIConfigByKeywords.simps(1) hostLabelKeyword_def numeral_2_eq_2 a b)
qed

text \<open>
  C5, amended: for a host none of whose label values begins with the prefix
  \<^verbatim>\<open>__host_label__\<close>, substituting twice gives the same tree as substituting once.
\<close>

theorem substitution_twice:
  assumes "uniqueKeys n"
    and "\<forall>l x. Labels host l = Some x \<longrightarrow> \<not> prefix hostLabelKeyword x"
  shows "UpdateCNIConfigByKeywords (UpdateCNIConfigByKeywords n host) host
         = UpdateCNIConfigByKeywords n host"
  using Update_twice [OF assms(2) assms(1)] .

theorem substitution_twice_witness:
  "uniqueKeys (NMap [(''k'', NString ''__host_label__:a''), (''m'', NMap [(''t'', NString ''x'')])])
   \<and> ran (Labels \<lparr>Host.UUID = ''h1'', EnvironmentUUID = ''e1'', Labels = [''a'' \<mapsto> ''east'']\<rparr>)
       = {''east''}
   \<and> \<not> prefix hostLabelKeyword ''east''
   \<and> UpdateCNIConfigByKeywords (UpdateCNIConfigByKeywords
         (NMap [(''k'', NString ''__host_label__:a''), (''m'', NMap [(''t'', NString ''x'')])])
         \<lparr>Host.UUID = ''h1'', EnvironmentUUID = ''e1'', Labels = [''a'' \<mapsto> ''east'']\<rparr>)
         \<lparr>Host.UUID = ''h1'', EnvironmentUUID = ''e1'', Labels = [''a'' \<mapsto> ''east'']\<rparr>
       = UpdateCNIConfigByKeywords
         (NMap [(''k'', NString ''__host_label__:a''), (''m'', NMap [(''t'', NString ''x'')])])
         \<lparr>Host.UUID = ''h1'', EnvironmentUUID = ''e1'', Labels = [''a'' \<mapsto> ''east'']\<rparr>"
proof -
  have u: "uniqueKeys (NMap [(''k'', NString ''__host_label__:a''), (''m'', NMap [(''t'', NString ''x'')])])"
    by simp
  have l: "\<forall>l x. Labels \<lparr>Host.UUID = ''h1'', EnvironmentUUID = ''e1'', Labels = [''a'' \<mapsto> ''east'']\<rparr> l = Some x
        \<longrightarrow> \<not> prefix hostLabelKeyword x"
    by (auto simp: hostLabelKeyword_def split: if_splits)
  have r: "ran (Labels \<lparr>Host.UUID = ''h1'', EnvironmentUUID = ''e1'', Labels = [''a'' \<mapsto> ''east'']\<rparr>)
       = {''east''}"
    by simp
  have np: "\<not> prefix hostLabelKeyword ''east''"
    by (simp add: hostLabelKeyword_def)
  show ?thesis
    by (intro conjI u r np substitution_twice [OF u l])
qed

subsection \<open>C6: other strings\<close>

text \<open>
  C6: a string leaf anywhere in the tree that does not begin with the prefix is the same
  string at the same place after the substitution, and a node that is not a mapping is
  returned as it is.
\<close>

theorem other_strings_unchanged:
  "(uniqueKeys n \<and> nodeAt n p = Some (NString s) \<and> \<not> prefix hostLabelKeyword s
      \<longrightarrow> nodeAt (UpdateCNIConfigByKeywords n host) p = Some (NString s))
   \<and> (\<not> isMap n \<longrightarrow> UpdateCNIConfigByKeywords n host = n)"
proof -
  have "UpdateCNIConfigByKeywords n host = n" if "\<not> isMap n"
    using that by (cases n) simp_all
  then show ?thesis
    using nodeAt_Update_keeps [of n p "NString s" host] by auto
qed

theorem other_strings_unchanged_witness:
  "uniqueKeys exLabelFile
   \<and> nodeAt exLabelFile [Key ''bridgeSubnet''] = Some (NString ''10.43.0.0/16'')
   \<and> \<not> prefix hostLabelKeyword ''10.43.0.0/16''
   \<and> nodeAt (UpdateCNIConfigByKeywords exLabelFile exHost) [Key ''bridgeSubnet'']
       = Some (NString ''10.43.0.0/16'')
   \<and> \<not> isMap (NString ''__host_label__:bridge'')
   \<and> UpdateCNIConfigByKeywords (NString ''__host_label__:bridge'') exHost
       = NString ''__host_label__:bridge''"
proof -
  have u: "uniqueKeys exLabelFile"
    by (simp add: exLabelFile_def)
  have at: "nodeAt exLabelFile [Key ''bridgeSubnet''] = Some (NString ''10.43.0.0/16'')"
    by (simp add: exLabelFile_def)
  have np: "\<not> prefix hostLabelKeyword ''10.43.0.0/16''"
    by (simp add: hostLabelKeyword_def)
  have nm: "\<not> isMap (NString ''__host_label__:bridge'')"
    by simp
  note leaf = other_strings_unchanged [of exLabelFile "[Key ''bridgeSubnet'']" "''10.43.0.0/16''"
      exHost]
  note top = other_strings_unchanged [of "NString ''__host_label__:bridge''" "[]" "''x''" exHost]
  have a: "nodeAt (UpdateCNIConfigByKeywords exLabelFile exHost) [Key ''bridgeSubnet'']
       = Some (NString ''10.43.0.0/16'')"
    using leaf u at np by blast
  have b: "UpdateCNIConfigByKeywords (NString ''__host_label__:bridge'') exHost
       = NString ''__host_label__:bridge''"
    using top nm by blast
  show ?thesis
    by (intro conjI u at np a nm b)
qed

subsection \<open>C7: more or fewer than one driver service\<close>

text \<open>
  C7: unless exactly one service has kind \<^verbatim>\<open>networkDriverService\<close>, the driver services are
  the services of that kind named \<^verbatim>\<open>cni-driver\<close>, and the result is computed from them: with
  none kept, no routers and no networks; otherwise the routers are those of the first
  service, in input order, of the stack of the first kept driver that has another UUID and
  is its own primary service, and the networks are the input networks filtered against
  these routers. With two services of that kind, one of them named \<^verbatim>\<open>cni-driver\<close>, that
  one alone is kept, and the result is given by the same expression that gives it when that
  service is the single driver service.
\<close>

theorem cni_driver_fallback:
  "let qualifies = (\<lambda>d x. StackUUID x = StackUUID d \<and> Service.UUID x \<noteq> Service.UUID d
                           \<and> Name x = PrimaryServiceName x);
       routers = (\<lambda>d. case find (qualifies d) services of
                         None \<Rightarrow> Map.empty
                       | Some s \<Rightarrow>
                           map_of (rev (map (\<lambda>c. (NetworkUUID c, c))
                                         (filter (\<lambda>c. HostUUID c = Host.UUID host)
                                            (Containers s)))));
       result = (\<lambda>r. (filter (\<lambda>n. Network.EnvironmentUUID n = Host.EnvironmentUUID host
                     \<and> (\<exists>props. map_of (Metadata n) ''cniConfig'' = Some (NMap props))
                     \<and> Network.UUID n \<in> dom r) networks, r));
       candidates = filter (\<lambda>s. Kind s = ''networkDriverService'') services;
       kept = filter (\<lambda>s. Name s = ''cni-driver'') candidates
   in (length candidates \<noteq> 1 \<longrightarrow>
         cniDriverServices services = kept
         \<and> GetLocalNetworksAndRouters networks host services
           = (case kept of [] \<Rightarrow> result Map.empty | d # rest \<Rightarrow> result (routers d)))
      \<and> ((candidates = [d, e] \<or> candidates = [e, d])
          \<and> Name d = ''cni-driver'' \<and> Name e \<noteq> ''cni-driver'' \<longrightarrow>
         cniDriverServices services = [d]
         \<and> GetLocalNetworksAndRouters networks host services = result (routers d))
      \<and> (candidates = [d] \<longrightarrow>
         cniDriverServices services = [d]
         \<and> GetLocalNetworksAndRouters networks host services = result (routers d))"
proof -
  let ?K = "\<lambda>s. Kind s = ''networkDriverService''"
  let ?N = "\<lambda>s. Name s = ''cni-driver''"
  have G: "GetLocalNetworksAndRouters networks host services
      = (filter (\<lambda>n. Network.EnvironmentUUID n = Host.EnvironmentUUID host
                  \<and> (\<exists>props. map_of (Metadata n) ''cniConfig'' = Some (NMap props))
                  \<and> Network.UUID n
                      \<in> dom (localRouters (networkService services (cniDriverServices services)) host))
           networks,
         localRouters (networkService services (cniDriverServices services)) host)"
    by (simp add: GetLocalNetworksAndRouters_def resolveWith_pair)
  have many: "cniDriverServices services = filter ?N (filter ?K services)"
    if "length (filter ?K services) \<noteq> 1"
    using that by (simp add: cniDriverServices_filter del: filter_filter)
  have two: "cniDriverServices services = [d]"
    if "filter ?K services = [d, e] \<or> filter ?K services = [e, d]"
      and "Name d = ''cni-driver''" and "Name e \<noteq> ''cni-driver''"
    using that by (auto simp: cniDriverServices_filter simp del: filter_filter)
  have one: "cniDriverServices services = [d]" if "filter ?K services = [d]"
    using that by (simp add: cniDriverServices_filter del: filter_filter)
  show ?thesis
    unfolding Let_def G routers_of_drivers
    using many two one
    by (auto simp del: filter_filter split: list.splits)
qed

theorem cni_driver_fallback_witness:
  "length (filter (\<lambda>s. Kind s = ''networkDriverService'') [exOtherDriver, exDriver, exIpsec]) \<noteq> 1
   \<and> filter (\<lambda>s. Kind s = ''networkDriverService'') [exOtherDriver, exDriver, exIpsec]
       = [exOtherDriver, exDriver]
   \<and> Name exDriver = ''cni-driver'' \<and> Name exOtherDriver \<noteq> ''cni-driver''
   \<and> cniDriverServices [exOtherDriver, exDriver, exIpsec] = [exDriver]
   \<and> GetLocalNetworksAndRouters [exForeignNet, exNet] exHost [exOtherDriver, exDriver, exIpsec]
       = ([exNet], [''net-1'' \<mapsto> exRouterC])
   \<and> filter (\<lambda>s. Kind s = ''networkDriverService'') [exDriver, exIpsec] = [exDriver]
   \<and> GetLocalNetworksAndRouters [exForeignNet, exNet] exHost [exDriver, exIpsec]
       = ([exNet], [''net-1'' \<mapsto> exRouterC])
   \<and> length (filter (\<lambda>s. Kind s = ''networkDriverService'') [exOtherDriver, exOtherDriver, exIpsec])
       \<noteq> 1
   \<and> GetLocalNetworksAndRouters [exForeignNet, exNet] exHost [exOtherDriver, exOtherDriver, exIpsec]
       = ([], Map.empty)"
proof -
  have two: "filter (\<lambda>s. Kind s = ''networkDriverService'') [exOtherDriver, exDriver, exIpsec]
       = [exOtherDriver, exDriver]"
    by (simp add: ex_defs)
  have one: "filter (\<lambda>s. Kind s = ''networkDriverService'') [exDriver, exIpsec] = [exDriver]"
    by (simp add: ex_defs)
  have none: "filter (\<lambda>s. Kind s = ''networkDriverService'') [exOtherDriver, exOtherDriver, exIpsec]
       = [exOtherDriver, exOtherDriver]"
    by (simp add: ex_defs)
  have names: "Name exDriver = ''cni-driver''" "Name exOtherDriver \<noteq> ''cni-driver''"
    by (simp_all add: ex_defs)
  have len: "length (filter (\<lambda>s. Kind s = ''networkDriverService'')
               [exOtherDriver, exDriver, exIpsec]) \<noteq> 1"
    unfolding two by simp
  have len0: "length (filter (\<lambda>s. Kind s = ''networkDriverService'')
               [exOtherDriver, exOtherDriver, exIpsec]) \<noteq> 1"
    unfolding none by simp
  have f3: "find (\<lambda>x. StackUUID x = StackUUID exDriver \<and> Service.UUID x \<noteq> Service.UUID exDriver
                       \<and> Name x = PrimaryServiceName x) [exOtherDriver, exDriver, exIpsec]
            = Some exIpsec"
    by (simp add: ex_defs)
  have f2: "find (\<lambda>x. StackUUID x = StackUUID exDriver \<and> Service.UUID x \<noteq> Service.UUID exDriver
                       \<and> Name x = PrimaryServiceName x) [exDriver, exIpsec]
            = Some exIpsec"
    by (simp add: ex_defs)
  have r: "map_of (rev (map (\<lambda>c. (NetworkUUID c, c))
                      (filter (\<lambda>c. HostUUID c = Host.UUID exHost) (Containers exIpsec))))
           = [''net-1'' \<mapsto> exRouterC]"
    by (simp add: exIpsec_def exHost_def exRouterA_def exRouterB_def exRouterC_def)
  have nets: "filter (\<lambda>n. Network.EnvironmentUUID n = Host.EnvironmentUUID exHost
                     \<and> (\<exists>props. map_of (Metadata n) ''cniConfig'' = Some (NMap props))
                     \<and> Network.UUID n \<in> dom [''net-1'' \<mapsto> exRouterC]) [exForeignNet, exNet]
              = [exNet]"
    by (simp add: exForeignNet_def exNet_def exHost_def)
  have nets0: "filter (\<lambda>n. Network.EnvironmentUUID n = Host.EnvironmentUUID exHost
                     \<and> (\<exists>props. map_of (Metadata n) ''cniConfig'' = Some (NMap props))
                     \<and> Network.UUID n \<in> dom (Map.empty :: string \<rightharpoonup> Container))
                 [exForeignNet, exNet]
              = []"
    by simp
  have a: "cniDriverServices [exOtherDriver, exDriver, exIpsec] = [exDriver]
     \<and> GetLocalNetworksAndRouters [exForeignNet, exNet] exHost [exOtherDriver, exDriver, exIpsec]
       = ([exNet], [''net-1'' \<mapsto> exRouterC])"
    using cni_driver_fallback [where services = "[exOtherDriver, exDriver, exIpsec]"
      and d = exDriver and e = exOtherDriver and networks = "[exForeignNet, exNet]"
      and host = exHost]
    unfolding Let_def two f3 option.case r nets
    using names by blast
  have b: "GetLocalNetworksAndRouters [exForeignNet, exNet] exHost [exDriver, exIpsec]
       = ([exNet], [''net-1'' \<mapsto> exRouterC])"
    using cni_driver_fallback [where services = "[exDriver, exIpsec]"
      and d = exDriver and e = exOtherDriver and networks = "[exForeignNet, exNet]"
      and host = exHost]
    unfolding Let_def one f2 option.case r nets
    by blast
  have kept0: "filter (\<lambda>s. Name s = ''cni-driver'') [exOtherDriver, exOtherDriver] = []"
    by (simp add: ex_defs)
  have c: "GetLocalNetworksAndRouters [exForeignNet, exNet] exHost
             [exOtherDriver, exOtherDriver, exIpsec] = ([], Map.empty)"
    using cni_driver_fallback [where services = "[exOtherDriver, exOtherDriver, exIpsec]"
      and d = exDriver and e = exOtherDriver and networks = "[exForeignNet, exNet]"
      and host = exHost] len0
    unfolding Let_def none kept0 list.case nets0
    by blast
  show ?thesis
    by (intro conjI len two names conjunct1 [OF a] conjunct2 [OF a] one b len0 c)
qed

subsection \<open>C8: the bridge of a network\<close>

text \<open>
  C8: for a network whose configuration is one file with type \<^verbatim>\<open>rancher-bridge\<close>, bridge
  \<^verbatim>\<open>docker0\<close> and bridgeSubnet \<^verbatim>\<open>10.42.0.0/16\<close>, the result is that bridge and that subnet,
  for every host. In general the loop stops at the first file it visits whose type, read
  after the substitution, is \<^verbatim>\<open>rancher-bridge\<close> and whose bridge is not empty, and returns
  the bridge and the bridgeSubnet of that file.
\<close>

theorem bridge_info_of_bridge_file:
  "(map_of (Metadata network) ''cniConfig'' = Some (NMap [(fileName, NMap props)])
      \<and> distinct (map fst props)
      \<and> map_of props ''type'' = Some (NString ''rancher-bridge'')
      \<and> map_of props ''bridge'' = Some (NString ''docker0'')
      \<and> map_of props ''bridgeSubnet'' = Some (NString ''10.42.0.0/16'')
      \<longrightarrow> GetBridgeInfo network host = (''docker0'', ''10.42.0.0/16''))
   \<and> (asMap (map_of (Metadata network) ''cniConfig'') = pre @ (fileName, aFile) # post
      \<and> (\<forall>(n, f) \<in> set pre. \<not> stopsAt host f)
      \<and> fileField host aFile ''type'' = ''rancher-bridge''
      \<and> fileField host aFile ''bridge'' \<noteq> ''''
      \<longrightarrow> GetBridgeInfo network host
          = (fileField host aFile ''bridge'', fileField host aFile ''bridgeSubnet''))"
proof (intro conjI impI)
  assume a: "map_of (Metadata network) ''cniConfig'' = Some (NMap [(fileName, NMap props)])
      \<and> distinct (map fst props)
      \<and> map_of props ''type'' = Some (NString ''rancher-bridge'')
      \<and> map_of props ''bridge'' = Some (NString ''docker0'')
      \<and> map_of props ''bridgeSubnet'' = Some (NString ''10.42.0.0/16'')"
  then have d: "distinct (map fst props)" by simp
  have "fileField host (NMap props) ''type'' = ''rancher-bridge''"
    and "fileField host (NMap props) ''bridge'' = ''docker0''"
    and "fileField host (NMap props) ''bridgeSubnet'' = ''10.42.0.0/16''"
    using a by (simp_all add: fileField_plain [OF d] hostLabelKeyword_def)
  then show "GetBridgeInfo network host = (''docker0'', ''10.42.0.0/16'')"
    using a bridgeLoop_first [where pre = "[]" and host = host and cfg = "NMap props"
        and fileName = fileName and post = "[]" and b = "[]" and s = "[]"]
    by (simp add: GetBridgeInfo_def stopsAt_def)
next
  assume "asMap (map_of (Metadata network) ''cniConfig'') = pre @ (fileName, aFile) # post
      \<and> (\<forall>(n, f) \<in> set pre. \<not> stopsAt host f)
      \<and> fileField host aFile ''type'' = ''rancher-bridge''
      \<and> fileField host aFile ''bridge'' \<noteq> ''''"
  then show "GetBridgeInfo network host
          = (fileField host aFile ''bridge'', fileField host aFile ''bridgeSubnet'')"
    using bridgeLoop_first [where pre = pre and host = host and cfg = aFile
        and fileName = fileName and post = post and b = "[]" and s = "[]"]
    by (simp add: GetBridgeInfo_def stopsAt_def)
qed

theorem bridge_info_of_bridge_file_witness:
  "map_of (Metadata exNet) ''cniConfig''
     = Some (NMap [(''10-rancher.conf'', NMap [(''type'', NString ''rancher-bridge''),
          (''bridge'', NString ''docker0''), (''bridgeSubnet'', NString ''10.42.0.0/16'')])])
   \<and> GetBridgeInfo exNet exHost = (''docker0'', ''10.42.0.0/16'')
   \<and> asMap (map_of (Metadata exTwoFileNet) ''cniConfig'')
       = [(''00-lo.conf'', NMap [(''type'', NString ''loopback'')])]
         @ (''10-rancher.conf'', exLabelFile) # []
   \<and> \<not> stopsAt exHost (NMap [(''type'', NString ''loopback'')])
   \<and> GetBridgeInfo exTwoFileNet exHost = (''docker0'', ''10.43.0.0/16'')"
proof -
  have conf: "map_of (Metadata exNet) ''cniConfig''
     = Some (NMap [(''10-rancher.conf'', NMap [(''type'', NString ''rancher-bridge''),
          (''bridge'', NString ''docker0''), (''bridgeSubnet'', NString ''10.42.0.0/16'')])])"
    by (simp add: exNet_def exBridgeFile_def)
  have a: "GetBridgeInfo exNet exHost = (''docker0'', ''10.42.0.0/16'')"
    using bridge_info_of_bridge_file [where network = exNet and host = exHost
        and fileName = "''10-rancher.conf''"
        and props = "[(''type'', NString ''rancher-bridge''),
          (''bridge'', NString ''docker0''), (''bridgeSubnet'', NString ''10.42.0.0/16'')]"]
      conf by simp
  have two: "asMap (map_of (Metadata exTwoFileNet) ''cniConfig'')
       = [(''00-lo.conf'', NMap [(''type'', NString ''loopback'')])]
         @ (''10-rancher.conf'', exLabelFile) # []"
    by (simp add: exTwoFileNet_def)
  have d: "distinct (map fst [(''type'', NString ''loopback'')])"
    by simp
  have lo: "\<forall>(n, f) \<in> set [(''00-lo.conf'', NMap [(''type'', NString ''loopback'')])].
         \<not> stopsAt exHost f"
    by (simp add: stopsAt_def fileField_def Update_NMap [OF d] substituted_simps
        hostLabelKeyword_def)
  have b: "GetBridgeInfo exTwoFileNet exHost = (''docker0'', ''10.43.0.0/16'')"
    using bridge_info_of_bridge_file [where network = exTwoFileNet and host = exHost
        and pre = "[(''00-lo.conf'', NMap [(''type'', NString ''loopback'')])]"
        and fileName = "''10-rancher.conf''" and aFile = exLabelFile and post = "[]"]
      two lo by (simp add: fileField_exLabelFile)
  have lo': "\<not> stopsAt exHost (NMap [(''type'', NString ''loopback'')])"
    using lo by simp
  show ?thesis
    by (intro conjI conf a two lo' b)
qed

subsection \<open>C9: a network without a configuration\<close>

text \<open>
  C9: when the metadata has no \<^verbatim>\<open>cniConfig\<close> entry, or the entry is not a string-keyed
  mapping, there is no file to visit and both results are the empty string.
\<close>

theorem bridge_info_without_config:
  "map_of (Metadata network) ''cniConfig'' = None
     \<or> (\<exists>n. map_of (Metadata network) ''cniConfig'' = Some n \<and> \<not> isMap n)
   \<Longrightarrow> asMap (map_of (Metadata network) ''cniConfig'') = []
       \<and> GetBridgeInfo network host = ('''', '''')"
proof -
  assume "map_of (Metadata network) ''cniConfig'' = None
     \<or> (\<exists>n. map_of (Metadata network) ''cniConfig'' = Some n \<and> \<not> isMap n)"
  then have "asMap (map_of (Metadata network) ''cniConfig'') = []"
  proof
    assume "map_of (Metadata network) ''cniConfig'' = None"
    then show ?thesis by simp
  next
    assume "\<exists>n. map_of (Metadata network) ''cniConfig'' = Some n \<and> \<not> isMap n"
    then obtain n where "map_of (Metadata network) ''cniConfig'' = Some n" and "\<not> isMap n"
      by blast
    then show ?thesis by (cases n) simp_all
  qed
  then show ?thesis
    by (simp add: GetBridgeInfo_def)
qed

theorem bridge_info_without_config_witness:
  "map_of (Metadata \<lparr>Network.UUID = ''net-3'', EnvironmentUUID = ''env-1'', Metadata = []\<rparr>)
      ''cniConfig'' = None
   \<and> GetBridgeInfo \<lparr>Network.UUID = ''net-3'', EnvironmentUUID = ''env-1'', Metadata = []\<rparr> exHost
       = ('''', '''')
   \<and> map_of (Metadata exBareNet) ''cniConfig'' = Some (NString ''none'')
   \<and> \<not> isMap (NString ''none'')
   \<and> GetBridgeInfo exBareNet exHost = ('''', '''')"
proof -
  have absent: "map_of (Metadata \<lparr>Network.UUID = ''net-3'', EnvironmentUUID = ''env-1'',
      Metadata = []\<rparr>) ''cniConfig'' = None"
    by simp
  have other: "map_of (Metadata exBareNet) ''cniConfig'' = Some (NString ''none'')"
    by (simp add: exBareNet_def)
  have nm: "\<not> isMap (NString ''none'')"
    by simp
  have a: "GetBridgeInfo \<lparr>Network.UUID = ''net-3'', EnvironmentUUID = ''env-1'', Metadata = []\<rparr>
      exHost = ('''', '''')"
    using bridge_info_without_config [of "\<lparr>Network.UUID = ''net-3'', EnvironmentUUID = ''env-1'',
      Metadata = []\<rparr>" exHost] absent by blast
  have b: "GetBridgeInfo exBareNet exHost = ('''', '''')"
    using bridge_info_without_config [of exBareNet exHost] other nm by blast
  show ?thesis
    by (intro conjI absent a other nm b)
qed

subsection \<open>C10: lists\<close>

text \<open>
  C10: a list is returned as it is, so whatever lies below a list in the tree, at any
  depth, is the same after the substitution, a placeholder string included.
\<close>

theorem lists_unchanged:
  "UpdateCNIConfigByKeywords (NList xs) host = NList xs
   \<and> (uniqueKeys n \<and> nodeAt n (p @ Index i # q) = Some m
        \<longrightarrow> nodeAt (UpdateCNIConfigByKeywords n host) (p @ Index i # q) = Some m)"
proof -
  have "nodeAt (UpdateCNIConfigByKeywords n host) (p @ Index i # q) = Some m"
    if u: "uniqueKeys n" and at: "nodeAt n (p @ Index i # q) = Some m"
  proof -
    from at obtain l where l: "nodeAt n p = Some l" and m: "nodeAt l (Index i # q) = Some m"
      by (auto simp: nodeAt_append split: option.splits)
    from m obtain ys where "l = NList ys"
      using nodeAt_Index_is_list by blast
    with l u have "nodeAt (UpdateCNIConfigByKeywords n host) p = Some l"
      using nodeAt_Update_keeps [of n p l host] by simp
    with m show ?thesis
      by (simp add: nodeAt_append)
  qed
  then show ?thesis by simp
qed

theorem lists_unchanged_witness:
  "uniqueKeys exLabelFile
   \<and> nodeAt exLabelFile ([Key ''args''] @ Index 1 # [Key ''mtu''])
       = Some (NString ''__host_label__:bridge'')
   \<and> nodeAt (UpdateCNIConfigByKeywords exLabelFile exHost) ([Key ''args''] @ Index 1 # [Key ''mtu''])
       = Some (NString ''__host_label__:bridge'')"
proof -
  have u: "uniqueKeys exLabelFile"
    by (simp add: exLabelFile_def)
  have at: "nodeAt exLabelFile ([Key ''args''] @ Index 1 # [Key ''mtu''])
       = Some (NString ''__host_label__:bridge'')"
    by (simp add: exLabelFile_def)
  have a: "nodeAt (UpdateCNIConfigByKeywords exLabelFile exHost)
             ([Key ''args''] @ Index 1 # [Key ''mtu''])
       = Some (NString ''__host_label__:bridge'')"
    using lists_unchanged [of "[]" exHost exLabelFile "[Key ''args'']" 1 "[Key ''mtu'']"
        "NString ''__host_label__:bridge''"] u at by blast
  show ?thesis
    by (intro conjI u at a)
qed


end
